theory Spec2Isabelle
  imports Complex_Main "HOL-Library.AList"
begin

section \<open>Python values: exceptions, list indexing, text\<close>

text \<open>
  The interpreter of \<^verbatim>\<open>AssemblyHandler.py\<close> catches no exception: an IndexError, KeyError
  or ValueError raised while a command runs ends the process with a traceback, and nothing
  more is printed. Such a run is the value \<open>Inl e\<close>; a run that goes on is \<open>Inr\<close>.
\<close>

datatype py_error = IndexError | KeyError | ValueError | EOFError

definition bnd :: "py_error + 'a \<Rightarrow> ('a \<Rightarrow> py_error + 'b) \<Rightarrow> py_error + 'b" where
  "bnd m f = (case m of Inl e \<Rightarrow> Inl e | Inr v \<Rightarrow> f v)"

text \<open>
  Indexing a Python list of length \<open>n\<close> with \<open>i\<close>: an index in \<open>[-n, 0)\<close> counts from the end,
  an index outside \<open>[-n, n)\<close> raises IndexError.
\<close>

definition py_index :: "nat \<Rightarrow> int \<Rightarrow> py_error + nat" where
  "py_index n i =
     (if 0 \<le> i \<and> i < int n then Inr (nat i)
      else if - int n \<le> i \<and> i < 0 then Inr (nat (i + int n))
      else Inl IndexError)"

definition py_getitem :: "'a list \<Rightarrow> int \<Rightarrow> py_error + 'a" where
  "py_getitem xs i = bnd (py_index (length xs) i) (\<lambda>j. Inr (xs ! j))"

definition py_setitem :: "'a list \<Rightarrow> int \<Rightarrow> 'a \<Rightarrow> py_error + 'a list" where
  "py_setitem xs i v = bnd (py_index (length xs) i) (\<lambda>j. Inr (xs[j := v]))"

text \<open>
  Text is modelled as ASCII. \<open>str.split()\<close> cuts at runs of whitespace and drops empty
  pieces; \<open>str.strip()\<close> removes whitespace at both ends.
\<close>

definition is_space :: "char \<Rightarrow> bool" where
  "is_space c =
     (let n = (of_char c :: nat) in (9 \<le> n \<and> n \<le> 13) \<or> (28 \<le> n \<and> n \<le> 32))"

fun split_acc :: "string \<Rightarrow> string \<Rightarrow> string list" where
  "split_acc w [] = (if w = [] then [] else [rev w])"
| "split_acc w (c # cs) =
     (if is_space c then (if w = [] then split_acc [] cs else rev w # split_acc [] cs)
      else split_acc (c # w) cs)"

definition split :: "string \<Rightarrow> string list" where
  "split s = split_acc [] s"

definition strip :: "string \<Rightarrow> string" where
  "strip s = rev (dropWhile is_space (rev (dropWhile is_space s)))"

text \<open>
  \<open>int(t)\<close> on a piece without whitespace: an optional sign, then decimal digits, where
  single underscores may stand between digits; anything else raises ValueError. Digits
  outside ASCII and CPython's configurable cap on the number of digits are not modelled.
\<close>

definition digit_val :: "char \<Rightarrow> nat option" where
  "digit_val c =
     (let n = (of_char c :: nat) in if 48 \<le> n \<and> n \<le> 57 then Some (n - 48) else None)"

fun int_body :: "nat \<Rightarrow> bool \<Rightarrow> string \<Rightarrow> nat option" where
  "int_body acc after_digit [] = (if after_digit then Some acc else None)"
| "int_body acc after_digit (c # cs) =
     (if c = CHR ''_'' then (if after_digit then int_body acc False cs else None)
      else (case digit_val c of
              None \<Rightarrow> None
            | Some d \<Rightarrow> int_body (10 * acc + d) True cs))"

definition unsigned :: "string \<Rightarrow> py_error + int" where
  "unsigned t = (case int_body 0 False t of None \<Rightarrow> Inl ValueError | Some n \<Rightarrow> Inr (int n))"

definition py_int :: "string \<Rightarrow> py_error + int" where
  "py_int t =
     (case t of
        [] \<Rightarrow> Inl ValueError
      | c # cs \<Rightarrow>
          if c = CHR ''-'' then bnd (unsigned cs) (\<lambda>n. Inr (- n))
          else if c = CHR ''+'' then unsigned cs
          else unsigned t)"

section \<open>The machine state\<close>

text \<open>
  The fields of \<open>AssemblyHandler\<close>, and the lines printed so far. \<open>short_term\<close> is a
  Python dict keyed by text: an association list, in which \<open>AList.update\<close> overwrites an
  existing key in place and appends a new one, as assignment to a dict entry does.
\<close>

datatype out = Num int | Text string

record state =
  memory :: "int list"
  short_term :: "(string \<times> int) list"
  commands :: "string list"
  error :: bool
  stdout :: "out list"

definition fault_text :: string where
  "fault_text = ''I'' @ [CHR 0x27] @ ''m afraid I can'' @ [CHR 0x27] @ ''t do that''"

definition halt_text :: string where
  "halt_text = ''Execution halted''"

definition init :: state where
  "init = \<lparr>memory = replicate 2048 0,
           short_term = [(''A'', 0), (''B'', 0), (''C'', 0), (''D'', 0), (''P'', 0), (''X'', 0)],
           commands = [],
           error = False,
           stdout = []\<rparr>"

definition get_reg :: "state \<Rightarrow> string \<Rightarrow> py_error + int" where
  "get_reg s r = (case map_of (short_term s) r of None \<Rightarrow> Inl KeyError | Some v \<Rightarrow> Inr v)"

definition set_reg :: "state \<Rightarrow> string \<Rightarrow> int \<Rightarrow> state" where
  "set_reg s r v = s\<lparr>short_term := AList.update r v (short_term s)\<rparr>"

text \<open>The keys of the dict \<open>short_term\<close>: the names of the register slots.\<close>

definition reg_names :: "state \<Rightarrow> string set" where
  "reg_names s = fst ` set (short_term s)"

definition print :: "state \<Rightarrow> out \<Rightarrow> state" where
  "print s l = s\<lparr>stdout := stdout s @ [l]\<rparr>"

text \<open>\<open>self.error = True; print("I'm afraid I can't do that")\<close>\<close>

definition fault :: "state \<Rightarrow> state" where
  "fault s = print (s\<lparr>error := True\<rparr>) (Text fault_text)"

definition too_big :: "int \<Rightarrow> bool" where
  "too_big v = (abs v > 2 ^ 42)"

section \<open>parse_command\<close>

text \<open>
  A branch of \<open>parse_command\<close> either returns early (\<open>Return\<close>) or falls through to the two
  increments at the end of the function (\<open>Fall\<close>).
\<close>

datatype flow = Return state | Fall state

definition state_of :: "flow \<Rightarrow> state" where
  "state_of fl = (case fl of Return s \<Rightarrow> s | Fall s \<Rightarrow> s)"

definition op_LOADA :: "state \<Rightarrow> string list \<Rightarrow> py_error + flow" where
  "op_LOADA s parts =
     bnd (py_getitem parts 2) (\<lambda>t. bnd (py_int t) (\<lambda>i.
     bnd (py_getitem (memory s) i) (\<lambda>v.
     bnd (py_getitem parts 1) (\<lambda>r. Inr (Fall (set_reg s r v))))))"

definition op_LOAD :: "state \<Rightarrow> string list \<Rightarrow> py_error + flow" where
  "op_LOAD s parts =
     bnd (get_reg s ''A'') (\<lambda>a.
     bnd (py_getitem (memory s) a) (\<lambda>v.
     bnd (py_getitem parts 1) (\<lambda>r. Inr (Fall (set_reg s r v)))))"

definition op_LOADI :: "state \<Rightarrow> string list \<Rightarrow> py_error + flow" where
  "op_LOADI s parts =
     bnd (py_getitem parts 2) (\<lambda>t. bnd (py_int t) (\<lambda>v.
     if too_big v then Inr (Return (fault s))
     else bnd (py_getitem parts 1) (\<lambda>r. Inr (Fall (set_reg s r v)))))"

definition op_STOREA :: "state \<Rightarrow> string list \<Rightarrow> py_error + flow" where
  "op_STOREA s parts =
     bnd (py_getitem parts 2) (\<lambda>t. bnd (py_int t) (\<lambda>mem_address.
     bnd (py_getitem parts 1) (\<lambda>r. bnd (get_reg s r) (\<lambda>v.
     if too_big v then Inr (Return (fault s))
     else bnd (py_setitem (memory s) mem_address v) (\<lambda>m. Inr (Fall (s\<lparr>memory := m\<rparr>)))))))"

definition op_STORE :: "state \<Rightarrow> string list \<Rightarrow> py_error + flow" where
  "op_STORE s parts =
     bnd (get_reg s ''A'') (\<lambda>mem_address.
     bnd (py_getitem parts 1) (\<lambda>r. bnd (get_reg s r) (\<lambda>v.
     if too_big v then Inr (Return (fault s))
     else bnd (py_setitem (memory s) mem_address v) (\<lambda>m. Inr (Fall (s\<lparr>memory := m\<rparr>))))))"

definition op_MOVE :: "state \<Rightarrow> string list \<Rightarrow> py_error + flow" where
  "op_MOVE s parts =
     bnd (py_getitem parts 2) (\<lambda>r2. bnd (get_reg s r2) (\<lambda>v.
     bnd (py_getitem parts 1) (\<lambda>r1. Inr (Fall (set_reg s r1 v)))))"

definition op_ADDI :: "state \<Rightarrow> string list \<Rightarrow> py_error + flow" where
  "op_ADDI s parts =
     bnd (py_getitem parts 2) (\<lambda>t. bnd (py_int t) (\<lambda>v.
     if too_big v then Inr (Return (fault s))
     else bnd (py_getitem parts 1) (\<lambda>r. bnd (get_reg s r) (\<lambda>a.
          Inr (Fall (set_reg s r (a + v)))))))"

text \<open>
  ADD, SUB and MUL are the same branch up to the operator: the register is updated in
  place, and its new value is checked afterwards.
\<close>

definition checked :: "state \<Rightarrow> string \<Rightarrow> py_error + flow" where
  "checked s r =
     bnd (get_reg s r) (\<lambda>v. if too_big v then Inr (Return (fault s)) else Inr (Fall s))"

definition op_arith :: "(int \<Rightarrow> int \<Rightarrow> int) \<Rightarrow> state \<Rightarrow> string list \<Rightarrow> py_error + flow" where
  "op_arith f s parts =
     bnd (py_getitem parts 1) (\<lambda>r1. bnd (get_reg s r1) (\<lambda>a.
     bnd (py_getitem parts 2) (\<lambda>r2. bnd (get_reg s r2) (\<lambda>b.
     checked (set_reg s r1 (f a b)) r1))))"

definition op_DIV :: "state \<Rightarrow> string list \<Rightarrow> py_error + flow" where
  "op_DIV s parts =
     bnd (py_getitem parts 2) (\<lambda>r2. bnd (get_reg s r2) (\<lambda>b.
     if b = 0 then Inr (Fall (fault s))
     else bnd (py_getitem parts 1) (\<lambda>r1. bnd (get_reg s r1) (\<lambda>a.
          checked (set_reg s r1 (a div b)) r1))))"

definition op_J :: "state \<Rightarrow> string list \<Rightarrow> py_error + flow" where
  "op_J s parts =
     bnd (get_reg s ''P'') (\<lambda>p.
     bnd (py_getitem parts 1) (\<lambda>t. bnd (py_int t) (\<lambda>d.
     Inr (Fall (set_reg s ''P'' (p + d))))))"

definition op_JR :: "state \<Rightarrow> string list \<Rightarrow> py_error + flow" where
  "op_JR s parts =
     bnd (get_reg s ''P'') (\<lambda>p.
     bnd (py_getitem parts 1) (\<lambda>r. bnd (get_reg s r) (\<lambda>d.
     Inr (Fall (set_reg s ''P'' (p + d))))))"

definition op_JZ :: "state \<Rightarrow> string list \<Rightarrow> py_error + flow" where
  "op_JZ s parts =
     bnd (py_getitem parts 1) (\<lambda>r. bnd (get_reg s r) (\<lambda>v.
     if v = 0 then
       bnd (get_reg s ''P'') (\<lambda>p.
       bnd (py_getitem parts 2) (\<lambda>t. bnd (py_int t) (\<lambda>d.
       Inr (Fall (set_reg s ''P'' (p + d))))))
     else Inr (Fall s)))"

definition op_JLT :: "state \<Rightarrow> string list \<Rightarrow> py_error + flow" where
  "op_JLT s parts =
     bnd (py_getitem parts 1) (\<lambda>r1. bnd (get_reg s r1) (\<lambda>a.
     bnd (py_getitem parts 2) (\<lambda>r2. bnd (get_reg s r2) (\<lambda>b.
     if a < b then
       bnd (get_reg s ''P'') (\<lambda>p.
       bnd (py_getitem parts 3) (\<lambda>t. bnd (py_int t) (\<lambda>d.
       Inr (Fall (set_reg s ''P'' (p + d))))))
     else Inr (Fall s)))))"

definition op_HALT :: "state \<Rightarrow> py_error + flow" where
  "op_HALT s = Inr (Return (print (s\<lparr>error := True\<rparr>) (Text halt_text)))"

definition op_PRINT :: "state \<Rightarrow> string list \<Rightarrow> py_error + flow" where
  "op_PRINT s parts =
     bnd (py_getitem parts 1) (\<lambda>r. bnd (get_reg s r) (\<lambda>v. Inr (Fall (print s (Num v)))))"

text \<open>The \<open>if\<close>/\<open>elif\<close> chain on \<open>parts[0]\<close>; an opcode no branch knows changes nothing.\<close>

definition dispatch :: "state \<Rightarrow> string list \<Rightarrow> py_error + flow" where
  "dispatch s parts =
     bnd (py_getitem parts 0) (\<lambda>opcode.
       if opcode = ''LOADA'' then op_LOADA s parts
       else if opcode = ''LOAD'' then op_LOAD s parts
       else if opcode = ''LOADI'' then op_LOADI s parts
       else if opcode = ''STOREA'' then op_STOREA s parts
       else if opcode = ''STORE'' then op_STORE s parts
       else if opcode = ''MOVE'' then op_MOVE s parts
       else if opcode = ''ADDI'' then op_ADDI s parts
       else if opcode = ''ADD'' then op_arith (\<lambda>a b. a + b) s parts
       else if opcode = ''SUB'' then op_arith (\<lambda>a b. a - b) s parts
       else if opcode = ''MUL'' then op_arith (\<lambda>a b. a * b) s parts
       else if opcode = ''DIV'' then op_DIV s parts
       else if opcode = ''J'' then op_J s parts
       else if opcode = ''JR'' then op_JR s parts
       else if opcode = ''JZ'' then op_JZ s parts
       else if opcode = ''JLT'' then op_JLT s parts
       else if opcode = ''HALT'' then op_HALT s
       else if opcode = ''PRINT'' then op_PRINT s parts
       else Inr (Fall s))"

text \<open>\<open>self.short_term["P"] += 1; self.short_term["X"] += 1\<close>\<close>

definition increments :: "state \<Rightarrow> py_error + state" where
  "increments s =
     bnd (get_reg s ''P'') (\<lambda>p.
     bnd (get_reg (set_reg s ''P'' (p + 1)) ''X'') (\<lambda>x.
     Inr (set_reg (set_reg s ''P'' (p + 1)) ''X'' (x + 1))))"

definition finish :: "flow \<Rightarrow> py_error + state" where
  "finish fl = (case fl of Return s \<Rightarrow> Inr s | Fall s \<Rightarrow> increments s)"

definition parse_command :: "state \<Rightarrow> string \<Rightarrow> py_error + state" where
  "parse_command s command = bnd (dispatch s (split command)) finish"

section \<open>execute\<close>

text \<open>
  One turn of the \<open>while\<close> loop: \<open>Stop\<close> when the loop is left (its condition is false, a
  \<open>break\<close>, or an exception), \<open>Again\<close> with the state for the next turn.
\<close>

datatype turn = Stop "py_error + state" | Again state

definition guarded :: "state \<Rightarrow> int \<Rightarrow> string \<Rightarrow> turn" where
  "guarded s p command =
     (if p < 0 \<or> p \<ge> 10000 then Stop (Inr (fault s))
      else case get_reg s ''X'' of
             Inl e \<Rightarrow> Stop (Inl e)
           | Inr x \<Rightarrow>
               if x > 10 ^ 6 then Stop (Inr (fault s))
               else (case parse_command s command of
                       Inl e \<Rightarrow> Stop (Inl e)
                     | Inr s' \<Rightarrow> Again s'))"

definition loop_turn :: "state \<Rightarrow> turn" where
  "loop_turn s =
     (case get_reg s ''P'' of
        Inl e \<Rightarrow> Stop (Inl e)
      | Inr p \<Rightarrow>
          if p < int (length (commands s)) \<and> \<not> error s then
            (case py_getitem (commands s) p of
               Inl e \<Rightarrow> Stop (Inl e)
             | Inr command \<Rightarrow> guarded s p command)
          else Stop (Inr s))"

text \<open>
  The loop itself may run forever, so \<open>execute\<close> is a partial function: \<open>None\<close> is the run
  that never leaves the loop.
\<close>

partial_function (option) execute :: "state \<Rightarrow> (py_error + state) option" where
  "execute s = (case loop_turn s of Stop r \<Rightarrow> Some r | Again s' \<Rightarrow> execute s')"

text \<open>The same loop with a bound on the number of turns, for running concrete programs.\<close>

fun execute_fuel :: "nat \<Rightarrow> state \<Rightarrow> (py_error + state) option" where
  "execute_fuel 0 s = None"
| "execute_fuel (Suc n) s =
     (case loop_turn s of Stop r \<Rightarrow> Some r | Again s' \<Rightarrow> execute_fuel n s')"

section \<open>Loading a program\<close>

text \<open>
  \<open>load_commands_from_user\<close> reads lines until one is \<open>END\<close> after stripping; running out of
  input raises EOFError. The lines of standard input are the list argument.
\<close>

fun load_commands_from_user :: "state \<Rightarrow> string list \<Rightarrow> py_error + state" where
  "load_commands_from_user s [] = Inl EOFError"
| "load_commands_from_user s (l # ls) =
     (if strip l = ''END'' then Inr s
      else load_commands_from_user (s\<lparr>commands := commands s @ [strip l]\<rparr>) ls)"

text \<open>The module's last three statements: create the handler, load, execute.\<close>

definition script :: "string list \<Rightarrow> (py_error + state) option" where
  "script lines =
     (case load_commands_from_user init lines of
        Inl e \<Rightarrow> Some (Inl e)
      | Inr s \<Rightarrow> execute s)"

definition script_fuel :: "nat \<Rightarrow> string list \<Rightarrow> (py_error + state) option" where
  "script_fuel n lines =
     (case load_commands_from_user init lines of
        Inl e \<Rightarrow> Some (Inl e)
      | Inr s \<Rightarrow> execute_fuel n s)"

section \<open>Running concrete programs\<close>

lemma execute_Stop: "loop_turn s = Stop r \<Longrightarrow> execute s = Some r"
  by (subst execute.simps) simp

lemma execute_Again: "loop_turn s = Again s' \<Longrightarrow> execute s = execute s'"
  by (subst execute.simps) simp

lemma execute_fuel_sound: "execute_fuel n s = Some r \<Longrightarrow> execute s = Some r"
proof (induction n arbitrary: s)
  case 0
  then show ?case by simp
next
  case (Suc n)
  then show ?case
    by (subst execute.simps) (auto split: turn.splits)
qed

lemma script_fuel_sound: "script_fuel n ls = Some r \<Longrightarrow> script ls = Some r"
  by (auto simp: script_fuel_def script_def split: sum.splits dest: execute_fuel_sound)

lemmas text_defs = split_def is_space_def py_int_def unsigned_def digit_val_def

lemmas op_defs =
  op_LOADA_def op_LOAD_def op_LOADI_def op_STOREA_def op_STORE_def op_MOVE_def op_ADDI_def
  op_arith_def checked_def op_DIV_def op_J_def op_JR_def op_JZ_def op_JLT_def op_HALT_def
  op_PRINT_def

lemmas run_defs =
  loop_turn_def guarded_def parse_command_def dispatch_def finish_def increments_def op_defs
  get_reg_def set_reg_def print_def fault_def too_big_def
  py_getitem_def py_setitem_def py_index_def bnd_def text_defs

lemmas load_defs = script_fuel_def init_def strip_def

section \<open>The bound on immediates\<close>

text \<open>
  C8. The overflow check is strict: \<open>LOADI A 4398046511104\<close> (exactly \<open>2^42\<close>) stores the value
  with no fault, and the run ends normally after one step; \<open>LOADI A 4398046511105\<close> sets the
  error flag, prints the fault line and leaves every register as it was.
\<close>

theorem loadi_bound_is_strict:
  "script [''LOADI A 4398046511104'', ''END''] =
     Some (Inr \<lparr>memory = replicate 2048 0,
                short_term = [(''A'', 2 ^ 42), (''B'', 0), (''C'', 0), (''D'', 0),
                              (''P'', 1), (''X'', 1)],
                commands = [''LOADI A 4398046511104''],
                error = False,
                stdout = []\<rparr>)
   \<and> script [''LOADI A 4398046511105'', ''END''] =
     Some (Inr \<lparr>memory = replicate 2048 0,
                short_term = [(''A'', 0), (''B'', 0), (''C'', 0), (''D'', 0),
                              (''P'', 0), (''X'', 0)],
                commands = [''LOADI A 4398046511105''],
                error = True,
                stdout = [Text fault_text]\<rparr>)"
proof (rule conjI)
  show "script [''LOADI A 4398046511104'', ''END''] =
     Some (Inr \<lparr>memory = replicate 2048 0,
                short_term = [(''A'', 2 ^ 42), (''B'', 0), (''C'', 0), (''D'', 0),
                              (''P'', 1), (''X'', 1)],
                commands = [''LOADI A 4398046511104''],
                error = False,
                stdout = []\<rparr>)"
    by (rule script_fuel_sound [of "Suc (Suc 0)"]) (simp add: load_defs run_defs)
  show "script [''LOADI A 4398046511105'', ''END''] =
     Some (Inr \<lparr>memory = replicate 2048 0,
                short_term = [(''A'', 0), (''B'', 0), (''C'', 0), (''D'', 0),
                              (''P'', 0), (''X'', 0)],
                commands = [''LOADI A 4398046511105''],
                error = True,
                stdout = [Text fault_text]\<rparr>)"
    by (rule script_fuel_sound [of "Suc (Suc 0)"]) (simp add: load_defs run_defs)
qed

section \<open>Memory writes outside the bank\<close>

text \<open>
  C1. The claim asks that a write to any index outside \<open>[0, 2048)\<close> halts with the fault line.
  The code indexes the Python list directly. \<open>STOREA A -1\<close> writes cell 2047 and the run goes on
  with no fault; \<open>STORE\<close> through a register holding \<open>-7\<close> writes cell 2041 the same way;
  \<open>STOREA A 2048\<close> raises an IndexError nobody catches, so the error flag is never set and the
  fault line is never printed. \<open>STOREA A 2047\<close> succeeds.
\<close>

theorem store_outside_bank:
  "script [''LOADI A 7'', ''STOREA A -1'', ''END''] =
     Some (Inr \<lparr>memory = (replicate 2048 0)[2047 := 7],
                short_term = [(''A'', 7), (''B'', 0), (''C'', 0), (''D'', 0), (''P'', 2), (''X'', 2)],
                commands = [''LOADI A 7'', ''STOREA A -1''],
                error = False,
                stdout = []\<rparr>)
   \<and> script [''LOADI A -7'', ''STORE A'', ''END''] =
     Some (Inr \<lparr>memory = (replicate 2048 0)[2041 := - 7],
                short_term = [(''A'', - 7), (''B'', 0), (''C'', 0), (''D'', 0), (''P'', 2), (''X'', 2)],
                commands = [''LOADI A -7'', ''STORE A''],
                error = False,
                stdout = []\<rparr>)
   \<and> script [''STOREA A 2048'', ''END''] =
     Some (Inl IndexError)
   \<and> script [''LOADI A 7'', ''STOREA A 2047'', ''END''] =
     Some (Inr \<lparr>memory = (replicate 2048 0)[2047 := 7],
                short_term = [(''A'', 7), (''B'', 0), (''C'', 0), (''D'', 0), (''P'', 2), (''X'', 2)],
                commands = [''LOADI A 7'', ''STOREA A 2047''],
                error = False,
                stdout = []\<rparr>)"
proof (intro conjI)
  show "script [''LOADI A 7'', ''STOREA A -1'', ''END''] =
     Some (Inr \<lparr>memory = (replicate 2048 0)[2047 := 7],
                short_term = [(''A'', 7), (''B'', 0), (''C'', 0), (''D'', 0), (''P'', 2), (''X'', 2)],
                commands = [''LOADI A 7'', ''STOREA A -1''],
                error = False,
                stdout = []\<rparr>)"
    by (rule script_fuel_sound [of "Suc (Suc (Suc 0))"]) (simp add: load_defs run_defs)
  show "script [''LOADI A -7'', ''STORE A'', ''END''] =
     Some (Inr \<lparr>memory = (replicate 2048 0)[2041 := - 7],
                short_term = [(''A'', - 7), (''B'', 0), (''C'', 0), (''D'', 0), (''P'', 2), (''X'', 2)],
                commands = [''LOADI A -7'', ''STORE A''],
                error = False,
                stdout = []\<rparr>)"
    by (rule script_fuel_sound [of "Suc (Suc (Suc 0))"]) (simp add: load_defs run_defs)
  show "script [''STOREA A 2048'', ''END''] =
     Some (Inl IndexError)"
    by (rule script_fuel_sound [of "Suc (Suc 0)"]) (simp add: load_defs run_defs)
  show "script [''LOADI A 7'', ''STOREA A 2047'', ''END''] =
     Some (Inr \<lparr>memory = (replicate 2048 0)[2047 := 7],
                short_term = [(''A'', 7), (''B'', 0), (''C'', 0), (''D'', 0), (''P'', 2), (''X'', 2)],
                commands = [''LOADI A 7'', ''STOREA A 2047''],
                error = False,
                stdout = []\<rparr>)"
    by (rule script_fuel_sound [of "Suc (Suc (Suc 0))"]) (simp add: load_defs run_defs)
qed

section \<open>ADDI and the magnitude bound\<close>

text \<open>
  C2. The claim asks that no register holds a magnitude above \<open>2^42\<close> after LOADA, LOAD, LOADI,
  ADDI, ADD, SUB, MUL or DIV. ADDI checks its immediate and not the sum: after
  \<open>LOADI A 4398046511104\<close> and \<open>ADDI A 1\<close> register A holds \<open>2^42 + 1\<close>, the error flag is
  clear and nothing was printed.
\<close>

theorem addi_result_unchecked:
  "script [''LOADI A 4398046511104'', ''ADDI A 1'', ''END''] =
     Some (Inr \<lparr>memory = replicate 2048 0,
                short_term = [(''A'', 2 ^ 42 + 1), (''B'', 0), (''C'', 0), (''D'', 0), (''P'', 2), (''X'', 2)],
                commands = [''LOADI A 4398046511104'', ''ADDI A 1''],
                error = False,
                stdout = []\<rparr>)"
  by (rule script_fuel_sound [of "Suc (Suc (Suc 0))"]) (simp add: load_defs run_defs)

section \<open>Division by zero and the trailing increments\<close>

text \<open>
  C3. The claim asks that a faulting instruction leaves P and X as they were, DIV included.
  The branch of DIV for a zero divisor sets the error flag and prints the fault line but
  does not return, so the two increments at the end of \<open>parse_command\<close> still run: the run
  below stops with \<open>P = 3\<close> and \<open>X = 3\<close>, the faulting DIV being the instruction at index 2.
\<close>

theorem div_by_zero_advances:
  "script [''LOADI A 100'', ''LOADI B 0'', ''DIV A B'', ''END''] =
     Some (Inr \<lparr>memory = replicate 2048 0,
                short_term = [(''A'', 100), (''B'', 0), (''C'', 0), (''D'', 0), (''P'', 3), (''X'', 3)],
                commands = [''LOADI A 100'', ''LOADI B 0'', ''DIV A B''],
                error = True,
                stdout = [Text fault_text]\<rparr>)"
  by (rule script_fuel_sound [of "Suc (Suc (Suc (Suc 0)))"]) (simp add: load_defs run_defs)

section \<open>Registers and operands\<close>

lemma get_set_same: "get_reg (set_reg s r v) r = Inr v"
  by (simp add: get_reg_def set_reg_def update_conv')

lemma get_set_other: "r' \<noteq> r \<Longrightarrow> get_reg (set_reg s r v) r' = get_reg s r'"
  by (simp add: get_reg_def set_reg_def update_conv')

lemma parts0: "py_getitem (x0 # xs) 0 = Inr x0"
  by (simp add: py_getitem_def py_index_def bnd_def)

lemma parts1: "py_getitem (x0 # x1 # xs) 1 = Inr x1"
  by (simp add: py_getitem_def py_index_def bnd_def)

lemma parts2: "py_getitem (x0 # x1 # x2 # xs) 2 = Inr x2"
  by (simp add: py_getitem_def py_index_def bnd_def)

lemma parts3: "py_getitem (x0 # x1 # x2 # x3 # xs) 3 = Inr x3"
  by (simp add: py_getitem_def py_index_def bnd_def)

lemma bnd_Inr: "bnd (Inr v) f = f v"
  by (simp add: bnd_def)

lemma bnd_Inl: "bnd (Inl e) f = Inl e"
  by (simp add: bnd_def)

section \<open>DIV is floor division\<close>

lemma abs_div_pos_le:
  fixes a b :: int
  assumes "0 < b"
  shows "\<bar>a div b\<bar> \<le> \<bar>a\<bar>"
proof (cases "0 \<le> a")
  case True
  then have "0 \<le> a div b"
    using assms by (simp add: pos_imp_zdiv_nonneg_iff)
  moreover have "a div b \<le> a div 1"
    using True assms by (intro zdiv_mono2) auto
  ultimately show ?thesis
    using True by simp
next
  case False
  then have "a div b \<le> 0"
    using assms by (intro div_nonpos_pos_le0) auto
  moreover have "a div 1 \<le> a div b"
    using False assms by (intro zdiv_mono2_neg) auto
  ultimately show ?thesis
    using False by simp
qed

lemma abs_div_le: "\<bar>a div b\<bar> \<le> \<bar>a :: int\<bar>"
proof (cases "0 < b")
  case True
  then show ?thesis by (rule abs_div_pos_le)
next
  case False
  show ?thesis
  proof (cases "b = 0")
    case True
    then show ?thesis by simp
  next
    case nz: False
    with False have "0 < - b" by simp
    then have "\<bar>(- a) div (- b)\<bar> \<le> \<bar>- a\<bar>" by (rule abs_div_pos_le)
    then show ?thesis by simp
  qed
qed

lemma dispatch_DIV:
  "dispatch s (''DIV'' # r1 # r2 # rest) = op_DIV s (''DIV'' # r1 # r2 # rest)"
  by (simp add: dispatch_def parts0 bnd_Inr)

lemma op_DIV_nonzero:
  assumes "get_reg s r1 = Inr a" and "get_reg s r2 = Inr b" and "b \<noteq> 0"
  shows "op_DIV s (opc # r1 # r2 # rest) =
           (if too_big (a div b) then Inr (Return (fault (set_reg s r1 (a div b))))
            else Inr (Fall (set_reg s r1 (a div b))))"
  using assms by (simp add: op_DIV_def checked_def parts1 parts2 bnd_Inr get_set_same)

text \<open>
  C6. DIV divides as Python's \<open>//\<close> does: for a destination register holding \<open>a\<close> with
  \<open>\<bar>a\<bar> \<le> 2^42\<close> and a source register holding \<open>b \<noteq> 0\<close>, the destination receives the floor
  of the rational quotient \<open>a / b\<close> and the instruction does not fault. The program
  \<open>LOADI A -7; LOADI B 2; DIV A B; PRINT A\<close> prints \<open>-4\<close>.
\<close>

theorem div_is_floor_division:
  assumes "split command = ''DIV'' # r1 # r2 # rest"
    and "get_reg s r1 = Inr a" and "get_reg s r2 = Inr b"
    and "b \<noteq> 0" and "\<bar>a\<bar> \<le> 2 ^ 42"
  shows "dispatch s (split command) =
           Inr (Fall (set_reg s r1 \<lfloor>real_of_int a / real_of_int b\<rfloor>))
       \<and> script [''LOADI A -7'', ''LOADI B 2'', ''DIV A B'', ''PRINT A'', ''END''] =
           Some (Inr \<lparr>memory = replicate 2048 0,
                short_term = [(''A'', - 4), (''B'', 2), (''C'', 0), (''D'', 0), (''P'', 4), (''X'', 4)],
                commands = [''LOADI A -7'', ''LOADI B 2'', ''DIV A B'', ''PRINT A''],
                error = False,
                stdout = [Num (- 4)]\<rparr>)"
proof (rule conjI)
  have "\<bar>a div b\<bar> \<le> \<bar>a\<bar>" by (rule abs_div_le)
  with assms(5) have small: "\<not> too_big (a div b)"
    by (simp add: too_big_def)
  have "dispatch s (split command) = Inr (Fall (set_reg s r1 (a div b)))"
    using assms(2-4) small by (simp add: assms(1) dispatch_DIV op_DIV_nonzero)
  then show "dispatch s (split command) =
           Inr (Fall (set_reg s r1 \<lfloor>real_of_int a / real_of_int b\<rfloor>))"
    by (simp add: floor_divide_of_int_eq)
  show "script [''LOADI A -7'', ''LOADI B 2'', ''DIV A B'', ''PRINT A'', ''END''] =
           Some (Inr \<lparr>memory = replicate 2048 0,
                short_term = [(''A'', - 4), (''B'', 2), (''C'', 0), (''D'', 0), (''P'', 4), (''X'', 4)],
                commands = [''LOADI A -7'', ''LOADI B 2'', ''DIV A B'', ''PRINT A''],
                error = False,
                stdout = [Num (- 4)]\<rparr>)"
    by (rule script_fuel_sound [of "Suc (Suc (Suc (Suc (Suc 0))))"]) (simp add: load_defs run_defs)
qed

theorem div_is_floor_division_witness:
  "split ''DIV A B'' = ''DIV'' # ''A'' # ''B'' # []
   \<and> get_reg (set_reg (set_reg init ''A'' (- 7)) ''B'' 2) ''A'' = Inr (- 7)
   \<and> get_reg (set_reg (set_reg init ''A'' (- 7)) ''B'' 2) ''B'' = Inr 2
   \<and> (2 :: int) \<noteq> 0 \<and> \<bar>- 7 :: int\<bar> \<le> 2 ^ 42
   \<and> dispatch (set_reg (set_reg init ''A'' (- 7)) ''B'' 2) (split ''DIV A B'') =
        Inr (Fall (set_reg (set_reg (set_reg init ''A'' (- 7)) ''B'' 2) ''A'' (- 4)))"
proof -
  have h1: "split ''DIV A B'' = ''DIV'' # ''A'' # ''B'' # []"
    by (simp add: text_defs)
  have h2: "get_reg (set_reg (set_reg init ''A'' (- 7)) ''B'' 2) ''A'' = Inr (- 7)"
    by (simp add: get_set_same get_set_other)
  have h3: "get_reg (set_reg (set_reg init ''A'' (- 7)) ''B'' 2) ''B'' = Inr 2"
    by (simp add: get_set_same)
  have h4: "(2 :: int) \<noteq> 0" by simp
  have h5: "\<bar>- 7 :: int\<bar> \<le> 2 ^ 42" by simp
  have fl: "\<lfloor>real_of_int (- 7) / real_of_int 2\<rfloor> = (- 4 :: int)"
    by (simp add: floor_divide_of_int_eq [of "- 7" 2, where ?'a = real, simplified])
  from div_is_floor_division [OF h1 h2 h3 h4 h5]
  have "dispatch (set_reg (set_reg init ''A'' (- 7)) ''B'' 2) (split ''DIV A B'') =
        Inr (Fall (set_reg (set_reg (set_reg init ''A'' (- 7)) ''B'' 2) ''A''
               \<lfloor>real_of_int (- 7) / real_of_int 2\<rfloor>))"
    by (rule conjunct1)
  with h1 h2 h3 h4 h5 fl show ?thesis by simp
qed

section \<open>The step limit\<close>

text \<open>
  C9. A program whose first line is \<open>J -1\<close> (whatever follows it) stays at instruction 0:
  the jump sets P to \<open>-1\<close> and the increment at the end brings it back to 0, while X grows by
  one each turn. When X has reached \<open>10^6 + 1\<close> the guard of \<open>execute\<close> sets the error flag,
  prints the fault line and leaves the loop; the run returns.
\<close>

theorem tight_loop_hits_step_limit:
  "execute (init\<lparr>commands := ''J -1'' # rest\<rparr>) =
     Some (Inr \<lparr>memory = replicate 2048 0,
                short_term = [(''A'', 0), (''B'', 0), (''C'', 0), (''D'', 0), (''P'', 0), (''X'', 10 ^ 6 + 1)],
                commands = ''J -1'' # rest,
                error = True,
                stdout = [Text fault_text]\<rparr>)
   \<and> script [''J -1'', ''END''] =
     Some (Inr \<lparr>memory = replicate 2048 0,
                short_term = [(''A'', 0), (''B'', 0), (''C'', 0), (''D'', 0), (''P'', 0), (''X'', 10 ^ 6 + 1)],
                commands = [''J -1''],
                error = True,
                stdout = [Text fault_text]\<rparr>)"
proof -
  let ?St = "\<lambda>cs x. \<lparr>memory = replicate 2048 (0 :: int),
                short_term = [(''A'', 0), (''B'', 0), (''C'', 0), (''D'', 0), (''P'', 0), (''X'', x)],
                commands = ''J -1'' # cs,
                error = False,
                stdout = []\<rparr>"
  let ?End = "\<lambda>cs. \<lparr>memory = replicate 2048 (0 :: int),
                short_term = [(''A'', 0), (''B'', 0), (''C'', 0), (''D'', 0), (''P'', 0), (''X'', 10 ^ 6 + 1)],
                commands = ''J -1'' # cs,
                error = True,
                stdout = [Text fault_text]\<rparr>"
  have again: "loop_turn (?St cs x) = Again (?St cs (x + 1))" if "x \<le> 10 ^ 6" for cs x
    using that by (simp add: run_defs)
  have stop: "loop_turn (?St cs (10 ^ 6 + 1)) = Stop (Inr (?End cs))" for cs
    by (simp add: run_defs)
  have run: "execute (?St cs x) = Some (Inr (?End cs))"
    if "nat (10 ^ 6 + 1 - x) = n" and "x \<le> 10 ^ 6 + 1" for cs x n
    using that
  proof (induction n arbitrary: x)
    case 0
    then have "x = 10 ^ 6 + 1" by simp
    then show ?case by (simp only: execute_Stop [OF stop])
  next
    case (Suc n)
    then have le: "x \<le> 10 ^ 6" by linarith
    have "nat (10 ^ 6 + 1 - (x + 1)) = n" using Suc.prems by linarith
    moreover have "x + 1 \<le> 10 ^ 6 + 1" using le by simp
    ultimately have "execute (?St cs (x + 1)) = Some (Inr (?End cs))" by (rule Suc.IH)
    then show ?case by (simp only: execute_Again [OF again [OF le]])
  qed
  have all: "execute (init\<lparr>commands := ''J -1'' # cs\<rparr>) = Some (Inr (?End cs))" for cs
    using run [of 0 "10 ^ 6 + 1" cs] by (simp add: init_def)
  have "load_commands_from_user init [''J -1'', ''END''] = Inr (init\<lparr>commands := [''J -1'']\<rparr>)"
    by (simp add: init_def strip_def is_space_def)
  then have "script [''J -1'', ''END''] = Some (Inr (?End []))"
    by (simp add: script_def all)
  with all [of rest] show ?thesis by simp
qed

text \<open>
  C10. The guard reads register X, which a program can write. \<open>LOADI X 0\<close> followed by
  \<open>J -2\<close> cycles through three states in which X is at most 2, so the loop of \<open>execute\<close> is
  never left: the run has no result, and no bound on the number of turns yields one.
\<close>

theorem reset_counter_loop_runs_forever:
  "script [''LOADI X 0'', ''J -2'', ''END''] = None
   \<and> (\<forall>n. script_fuel n [''LOADI X 0'', ''J -2'', ''END''] = None)"
proof -
  let ?St = "\<lambda>p x. \<lparr>memory = replicate 2048 (0 :: int),
                short_term = [(''A'', 0), (''B'', 0), (''C'', 0), (''D'', 0), (''P'', p), (''X'', x)],
                commands = [''LOADI X 0'', ''J -2''],
                error = False,
                stdout = []\<rparr>"
  have t0: "loop_turn (?St 0 0) = Again (?St 1 1)"
    by (simp add: run_defs)
  have t1: "loop_turn (?St 1 1) = Again (?St 0 2)"
    by (simp add: run_defs)
  have t2: "loop_turn (?St 0 2) = Again (?St 1 1)"
    by (simp add: run_defs)
  have never: "s \<noteq> ?St 0 0 \<and> s \<noteq> ?St 1 1 \<and> s \<noteq> ?St 0 2" if run: "execute s = Some y" for s y
  proof (rule execute.raw_induct
      [where P = "\<lambda>s y. s \<noteq> ?St 0 0 \<and> s \<noteq> ?St 1 1 \<and> s \<noteq> ?St 0 2", OF _ run])
    fix exec :: "state \<Rightarrow> (py_error + state) option" and s y
    assume IH: "\<And>s y. exec s = Some y \<Longrightarrow> s \<noteq> ?St 0 0 \<and> s \<noteq> ?St 1 1 \<and> s \<noteq> ?St 0 2"
      and step: "(case loop_turn s of Stop r \<Rightarrow> Some r | Again s' \<Rightarrow> exec s') = Some y"
    show "s \<noteq> ?St 0 0 \<and> s \<noteq> ?St 1 1 \<and> s \<noteq> ?St 0 2"
    proof (intro conjI notI)
      assume "s = ?St 0 0"
      with step t0 have "exec (?St 1 1) = Some y" by simp
      from IH [OF this] show False by simp
    next
      assume "s = ?St 1 1"
      with step t1 have "exec (?St 0 2) = Some y" by simp
      from IH [OF this] show False by simp
    next
      assume "s = ?St 0 2"
      with step t2 have "exec (?St 1 1) = Some y" by simp
      from IH [OF this] show False by simp
    qed
  qed
  have "execute (?St 0 0) = None"
  proof (cases "execute (?St 0 0)")
    case None
    then show ?thesis .
  next
    case (Some y)
    from never [OF this] show ?thesis by simp
  qed
  moreover have "load_commands_from_user init [''LOADI X 0'', ''J -2'', ''END''] = Inr (?St 0 0)"
    by (simp add: init_def strip_def is_space_def)
  ultimately have none: "script [''LOADI X 0'', ''J -2'', ''END''] = None"
    by (simp add: script_def)
  have "script_fuel n [''LOADI X 0'', ''J -2'', ''END''] = None" for n
  proof (cases "script_fuel n [''LOADI X 0'', ''J -2'', ''END'']")
    case None
    then show ?thesis .
  next
    case (Some r)
    from script_fuel_sound [OF this] none show ?thesis by simp
  qed
  with none show ?thesis by simp
qed

section \<open>The increments after a successful instruction\<close>

text \<open>
  Every early \<open>return\<close> of \<open>parse_command\<close> follows \<open>self.error = True\<close>, so an instruction
  after which the error flag is clear has fallen through to the two increments.
\<close>

lemma error_fault: "error (fault s)"
  by (simp add: fault_def print_def)

lemma checked_Return: "checked s r = Inr (Return s') \<Longrightarrow> error s'"
  by (auto simp: checked_def bnd_def error_fault split: sum.splits if_splits)

lemma op_LOADA_Return: "op_LOADA s parts = Inr (Return s') \<Longrightarrow> error s'"
  by (auto simp: op_LOADA_def bnd_def split: sum.splits)

lemma op_LOAD_Return: "op_LOAD s parts = Inr (Return s') \<Longrightarrow> error s'"
  by (auto simp: op_LOAD_def bnd_def split: sum.splits)

lemma op_LOADI_Return: "op_LOADI s parts = Inr (Return s') \<Longrightarrow> error s'"
  by (auto simp: op_LOADI_def bnd_def error_fault split: sum.splits if_splits)

lemma op_STOREA_Return: "op_STOREA s parts = Inr (Return s') \<Longrightarrow> error s'"
  by (auto simp: op_STOREA_def bnd_def error_fault split: sum.splits if_splits)

lemma op_STORE_Return: "op_STORE s parts = Inr (Return s') \<Longrightarrow> error s'"
  by (auto simp: op_STORE_def bnd_def error_fault split: sum.splits if_splits)

lemma op_MOVE_Return: "op_MOVE s parts = Inr (Return s') \<Longrightarrow> error s'"
  by (auto simp: op_MOVE_def bnd_def split: sum.splits)

lemma op_ADDI_Return: "op_ADDI s parts = Inr (Return s') \<Longrightarrow> error s'"
  by (auto simp: op_ADDI_def bnd_def error_fault split: sum.splits if_splits)

lemma op_arith_Return: "op_arith f s parts = Inr (Return s') \<Longrightarrow> error s'"
  by (auto simp: op_arith_def bnd_def split: sum.splits dest: checked_Return)

lemma op_DIV_Return: "op_DIV s parts = Inr (Return s') \<Longrightarrow> error s'"
  by (auto simp: op_DIV_def bnd_def split: sum.splits if_splits dest: checked_Return)

lemma op_J_Return: "op_J s parts = Inr (Return s') \<Longrightarrow> error s'"
  by (auto simp: op_J_def bnd_def split: sum.splits)

lemma op_JR_Return: "op_JR s parts = Inr (Return s') \<Longrightarrow> error s'"
  by (auto simp: op_JR_def bnd_def split: sum.splits)

lemma op_JZ_Return: "op_JZ s parts = Inr (Return s') \<Longrightarrow> error s'"
  by (auto simp: op_JZ_def bnd_def split: sum.splits if_splits)

lemma op_JLT_Return: "op_JLT s parts = Inr (Return s') \<Longrightarrow> error s'"
  by (auto simp: op_JLT_def bnd_def split: sum.splits if_splits)

lemma op_HALT_Return: "op_HALT s = Inr (Return s') \<Longrightarrow> error s'"
  by (auto simp: op_HALT_def print_def)

lemma op_PRINT_Return: "op_PRINT s parts = Inr (Return s') \<Longrightarrow> error s'"
  by (auto simp: op_PRINT_def bnd_def split: sum.splits)

lemmas op_Returns =
  op_LOADA_Return op_LOAD_Return op_LOADI_Return op_STOREA_Return op_STORE_Return
  op_MOVE_Return op_ADDI_Return op_arith_Return op_DIV_Return op_J_Return op_JR_Return
  op_JZ_Return op_JLT_Return op_HALT_Return op_PRINT_Return

lemma dispatch_Return: "dispatch s parts = Inr (Return s') \<Longrightarrow> error s'"
  unfolding dispatch_def bnd_def
  by (auto split: sum.splits if_splits dest: op_Returns)

lemma parse_command_success:
  assumes "parse_command s command = Inr s'" and "\<not> error s'"
  shows "\<exists>s1 p x. dispatch s (split command) = Inr (Fall s1)
           \<and> get_reg s1 ''P'' = Inr p \<and> get_reg s1 ''X'' = Inr x
           \<and> s' = set_reg (set_reg s1 ''P'' (p + 1)) ''X'' (x + 1)"
proof -
  from assms(1) obtain fl where d: "dispatch s (split command) = Inr fl" and f: "finish fl = Inr s'"
    by (auto simp: parse_command_def bnd_def split: sum.splits)
  show ?thesis
  proof (cases fl)
    case (Return s2)
    with f have "s2 = s'" by (simp add: finish_def)
    with d Return assms(2) show ?thesis by (auto dest: dispatch_Return)
  next
    case (Fall s1)
    with f have "increments s1 = Inr s'" by (simp add: finish_def)
    then obtain p x where "get_reg s1 ''P'' = Inr p" "get_reg s1 ''X'' = Inr x"
      "s' = set_reg (set_reg s1 ''P'' (p + 1)) ''X'' (x + 1)"
      by (auto simp: increments_def bnd_def get_set_other split: sum.splits)
    with d Fall show ?thesis by auto
  qed
qed

lemma dispatch_J:
  "dispatch s (''J'' # t # rest) =
     bnd (get_reg s ''P'') (\<lambda>p. bnd (py_int t) (\<lambda>d. Inr (Fall (set_reg s ''P'' (p + d)))))"
  by (simp add: dispatch_def op_J_def parts0 parts1 bnd_Inr)

lemma dispatch_JR:
  "dispatch s (''JR'' # r # rest) =
     bnd (get_reg s ''P'') (\<lambda>p. bnd (get_reg s r) (\<lambda>d. Inr (Fall (set_reg s ''P'' (p + d)))))"
  by (simp add: dispatch_def op_JR_def parts0 parts1 bnd_Inr)

lemma dispatch_JZ_taken:
  "get_reg s r = Inr 0 \<Longrightarrow>
   dispatch s (''JZ'' # r # t # rest) =
     bnd (get_reg s ''P'') (\<lambda>p. bnd (py_int t) (\<lambda>d. Inr (Fall (set_reg s ''P'' (p + d)))))"
  by (simp add: dispatch_def op_JZ_def parts0 parts1 parts2 bnd_Inr)

lemma dispatch_JLT_taken:
  "get_reg s r1 = Inr a \<Longrightarrow> get_reg s r2 = Inr b \<Longrightarrow> a < b \<Longrightarrow>
   dispatch s (''JLT'' # r1 # r2 # t # rest) =
     bnd (get_reg s ''P'') (\<lambda>p. bnd (py_int t) (\<lambda>d. Inr (Fall (set_reg s ''P'' (p + d)))))"
  by (simp add: dispatch_def op_JLT_def parts0 parts1 parts2 parts3 bnd_Inr)

lemma jump_lands_one_past:
  assumes "parse_command s command = Inr s'" and "\<not> error s'"
    and "dispatch s (split command) =
           bnd (get_reg s ''P'') (\<lambda>p. bnd (src :: py_error + int) (\<lambda>d. Inr (Fall (set_reg s ''P'' (p + d)))))"
  shows "\<exists>p d. get_reg s ''P'' = Inr p \<and> src = Inr d \<and> get_reg s' ''P'' = Inr (p + d + 1)"
proof -
  from parse_command_success [OF assms(1,2)] obtain s1 p x where
    d: "dispatch s (split command) = Inr (Fall s1)" and p: "get_reg s1 ''P'' = Inr p"
    and s': "s' = set_reg (set_reg s1 ''P'' (p + 1)) ''X'' (x + 1)"
    by blast
  from d assms(3) obtain p0 d0 where p0: "get_reg s ''P'' = Inr p0" and d0: "src = Inr d0"
    and s1: "s1 = set_reg s ''P'' (p0 + d0)"
    by (auto simp: bnd_def split: sum.splits)
  from p s1 have "p = p0 + d0" by (simp add: get_set_same)
  with s' have "get_reg s' ''P'' = Inr (p0 + d0 + 1)"
    by (simp add: get_set_same get_set_other)
  with p0 d0 show ?thesis by blast
qed

text \<open>
  C5. When \<open>parse_command\<close> returns with the error flag clear, the instruction's own effect
  (the state \<open>s1\<close>) came first and then P and X were each raised by one. For the jumps this
  means that a taken jump with offset \<open>d\<close> from \<open>P = p\<close> leaves \<open>P = p + d + 1\<close>: one
  instruction past the raw offset. This is stated for J, JR, a taken JZ and a taken JLT.
\<close>

theorem increments_after_success:
  assumes "parse_command s command = Inr s'" and "\<not> error s'"
  shows "(\<exists>s1 p x. dispatch s (split command) = Inr (Fall s1)
            \<and> get_reg s1 ''P'' = Inr p \<and> get_reg s1 ''X'' = Inr x
            \<and> s' = set_reg (set_reg s1 ''P'' (p + 1)) ''X'' (x + 1)
            \<and> get_reg s' ''P'' = Inr (p + 1) \<and> get_reg s' ''X'' = Inr (x + 1))
       \<and> (split command = ''J'' # t # rest \<longrightarrow>
            (\<exists>p d. get_reg s ''P'' = Inr p \<and> py_int t = Inr d
                   \<and> get_reg s' ''P'' = Inr (p + d + 1)))
       \<and> (split command = ''JR'' # r # rest \<longrightarrow>
            (\<exists>p d. get_reg s ''P'' = Inr p \<and> get_reg s r = Inr d
                   \<and> get_reg s' ''P'' = Inr (p + d + 1)))
       \<and> (split command = ''JZ'' # r # t # rest \<and> get_reg s r = Inr 0 \<longrightarrow>
            (\<exists>p d. get_reg s ''P'' = Inr p \<and> py_int t = Inr d
                   \<and> get_reg s' ''P'' = Inr (p + d + 1)))
       \<and> (split command = ''JLT'' # r1 # r2 # t # rest
            \<and> get_reg s r1 = Inr a \<and> get_reg s r2 = Inr b \<and> a < b \<longrightarrow>
            (\<exists>p d. get_reg s ''P'' = Inr p \<and> py_int t = Inr d
                   \<and> get_reg s' ''P'' = Inr (p + d + 1)))"
proof (intro conjI impI)
  from parse_command_success [OF assms] obtain s1 p x where
    "dispatch s (split command) = Inr (Fall s1)" "get_reg s1 ''P'' = Inr p"
    "get_reg s1 ''X'' = Inr x" "s' = set_reg (set_reg s1 ''P'' (p + 1)) ''X'' (x + 1)"
    by blast
  moreover from this have "get_reg s' ''P'' = Inr (p + 1)" "get_reg s' ''X'' = Inr (x + 1)"
    by (simp_all add: get_set_same get_set_other)
  ultimately show "\<exists>s1 p x. dispatch s (split command) = Inr (Fall s1)
            \<and> get_reg s1 ''P'' = Inr p \<and> get_reg s1 ''X'' = Inr x
            \<and> s' = set_reg (set_reg s1 ''P'' (p + 1)) ''X'' (x + 1)
            \<and> get_reg s' ''P'' = Inr (p + 1) \<and> get_reg s' ''X'' = Inr (x + 1)"
    by blast
next
  assume "split command = ''J'' # t # rest"
  then show "\<exists>p d. get_reg s ''P'' = Inr p \<and> py_int t = Inr d \<and> get_reg s' ''P'' = Inr (p + d + 1)"
    by (intro jump_lands_one_past [OF assms]) (simp add: dispatch_J)
next
  assume "split command = ''JR'' # r # rest"
  then show "\<exists>p d. get_reg s ''P'' = Inr p \<and> get_reg s r = Inr d \<and> get_reg s' ''P'' = Inr (p + d + 1)"
    by (intro jump_lands_one_past [OF assms]) (simp add: dispatch_JR)
next
  assume "split command = ''JZ'' # r # t # rest \<and> get_reg s r = Inr 0"
  then show "\<exists>p d. get_reg s ''P'' = Inr p \<and> py_int t = Inr d \<and> get_reg s' ''P'' = Inr (p + d + 1)"
    by (intro jump_lands_one_past [OF assms]) (simp add: dispatch_JZ_taken)
next
  assume "split command = ''JLT'' # r1 # r2 # t # rest
            \<and> get_reg s r1 = Inr a \<and> get_reg s r2 = Inr b \<and> a < b"
  then show "\<exists>p d. get_reg s ''P'' = Inr p \<and> py_int t = Inr d \<and> get_reg s' ''P'' = Inr (p + d + 1)"
    by (intro jump_lands_one_past [OF assms]) (simp add: dispatch_JLT_taken)
qed

theorem increments_after_success_witness:
  "parse_command init ''J 3'' =
     Inr \<lparr>memory = replicate 2048 0,
          short_term = [(''A'', 0), (''B'', 0), (''C'', 0), (''D'', 0), (''P'', 4), (''X'', 1)],
          commands = [],
          error = False,
          stdout = []\<rparr>
   \<and> split ''J 3'' = [''J'', ''3'']
   \<and> (\<exists>p d. get_reg init ''P'' = Inr p \<and> py_int ''3'' = Inr d \<and> p + d + 1 = 4)"
proof -
  let ?S = "\<lparr>memory = replicate 2048 (0 :: int),
          short_term = [(''A'', 0), (''B'', 0), (''C'', 0), (''D'', 0), (''P'', 4), (''X'', 1)],
          commands = [],
          error = False,
          stdout = []\<rparr>"
  have h1: "parse_command init ''J 3'' = Inr ?S"
    by (simp add: init_def run_defs)
  have h2: "\<not> error ?S"
    by simp
  have h3: "split ''J 3'' = ''J'' # ''3'' # []"
    by (simp add: text_defs)
  from increments_after_success [OF h1 h2, where t = "''3''" and rest = "[]"] h3
  have "\<exists>p d. get_reg init ''P'' = Inr p \<and> py_int ''3'' = Inr d
          \<and> get_reg ?S ''P'' = Inr (p + d + 1)"
    by blast
  then have "\<exists>p d. get_reg init ''P'' = Inr p \<and> py_int ''3'' = Inr d \<and> p + d + 1 = 4"
    by (simp add: get_reg_def)
  with h1 h3 show ?thesis by simp
qed

section \<open>Overflow faults and the write they guard\<close>

lemma finish_Return: "finish (Return s) = Inr s"
  by (simp add: finish_def)

lemma fault_fields:
  "short_term (fault s) = short_term s \<and> memory (fault s) = memory s
   \<and> commands (fault s) = commands s \<and> error (fault s)
   \<and> stdout (fault s) = stdout s @ [Text fault_text]"
  by (simp add: fault_def print_def)

lemma LOADI_too_big:
  "split command = ''LOADI'' # r # t # rest \<Longrightarrow> py_int t = Inr v \<Longrightarrow> too_big v \<Longrightarrow>
   parse_command s command = Inr (fault s)"
  by (simp add: parse_command_def dispatch_def op_LOADI_def parts0 parts2 bnd_Inr finish_Return)

lemma ADDI_too_big:
  "split command = ''ADDI'' # r # t # rest \<Longrightarrow> py_int t = Inr v \<Longrightarrow> too_big v \<Longrightarrow>
   parse_command s command = Inr (fault s)"
  by (simp add: parse_command_def dispatch_def op_ADDI_def parts0 parts2 bnd_Inr finish_Return)

lemma STOREA_too_big:
  "split command = ''STOREA'' # r # t # rest \<Longrightarrow> py_int t = Inr i \<Longrightarrow>
   get_reg s r = Inr v \<Longrightarrow> too_big v \<Longrightarrow>
   parse_command s command = Inr (fault s)"
  by (simp add: parse_command_def dispatch_def op_STOREA_def parts0 parts1 parts2 bnd_Inr
      finish_Return)

lemma STORE_too_big:
  "split command = ''STORE'' # r # rest \<Longrightarrow> get_reg s ''A'' = Inr i \<Longrightarrow>
   get_reg s r = Inr v \<Longrightarrow> too_big v \<Longrightarrow>
   parse_command s command = Inr (fault s)"
  by (simp add: parse_command_def dispatch_def op_STORE_def parts0 parts1 bnd_Inr finish_Return)

lemma op_arith_too_big:
  "get_reg s r1 = Inr a \<Longrightarrow> get_reg s r2 = Inr b \<Longrightarrow> too_big (f a b) \<Longrightarrow>
   bnd (op_arith f s (opc # r1 # r2 # rest)) finish = Inr (fault (set_reg s r1 (f a b)))"
  by (simp add: op_arith_def checked_def parts1 parts2 bnd_Inr get_set_same finish_Return)

lemma ADD_too_big:
  "split command = ''ADD'' # r1 # r2 # rest \<Longrightarrow> get_reg s r1 = Inr a \<Longrightarrow>
   get_reg s r2 = Inr b \<Longrightarrow> too_big (a + b) \<Longrightarrow>
   parse_command s command = Inr (fault (set_reg s r1 (a + b)))"
  by (simp add: parse_command_def dispatch_def parts0 bnd_Inr op_arith_too_big)

lemma SUB_too_big:
  "split command = ''SUB'' # r1 # r2 # rest \<Longrightarrow> get_reg s r1 = Inr a \<Longrightarrow>
   get_reg s r2 = Inr b \<Longrightarrow> too_big (a - b) \<Longrightarrow>
   parse_command s command = Inr (fault (set_reg s r1 (a - b)))"
  by (simp add: parse_command_def dispatch_def parts0 bnd_Inr op_arith_too_big)

lemma MUL_too_big:
  "split command = ''MUL'' # r1 # r2 # rest \<Longrightarrow> get_reg s r1 = Inr a \<Longrightarrow>
   get_reg s r2 = Inr b \<Longrightarrow> too_big (a * b) \<Longrightarrow>
   parse_command s command = Inr (fault (set_reg s r1 (a * b)))"
  by (simp add: parse_command_def dispatch_def parts0 bnd_Inr op_arith_too_big)

lemma DIV_too_big:
  "split command = ''DIV'' # r1 # r2 # rest \<Longrightarrow> get_reg s r1 = Inr a \<Longrightarrow>
   get_reg s r2 = Inr b \<Longrightarrow> b \<noteq> 0 \<Longrightarrow> too_big (a div b) \<Longrightarrow>
   parse_command s command = Inr (fault (set_reg s r1 (a div b)))"
  by (simp add: parse_command_def dispatch_DIV op_DIV_nonzero bnd_Inr finish_Return)

lemma J_unchecked:
  assumes "split command = ''J'' # t # rest" and "py_int t = Inr d"
    and "get_reg s ''P'' = Inr p" and "get_reg s ''X'' = Inr x"
  shows "parse_command s command =
           Inr (set_reg (set_reg (set_reg s ''P'' (p + d)) ''P'' (p + d + 1)) ''X'' (x + 1))"
  using assms
  by (simp add: parse_command_def dispatch_J bnd_Inr finish_def increments_def
      get_set_same get_set_other)

text \<open>
  C4, as the code has it. The claim says that a write whose value check fails is never
  performed. That holds where the check comes before the write: LOADI and ADDI (the
  immediate) and STOREA and STORE (the register's value) report the fault and change neither
  registers nor memory. ADD, SUB, MUL and DIV update the destination register in place and
  check afterwards: the fault is reported and the destination holds the out-of-range
  result. A jump writes P with no magnitude check at all.
\<close>

theorem overflow_check_and_write:
  "(split command = ''LOADI'' # r # t # rest \<and> py_int t = Inr v \<and> too_big v \<longrightarrow>
      parse_command s command = Inr (fault s))
   \<and> (split command = ''ADDI'' # r # t # rest \<and> py_int t = Inr v \<and> too_big v \<longrightarrow>
      parse_command s command = Inr (fault s))
   \<and> (split command = ''STOREA'' # r # t # rest \<and> py_int t = Inr i
        \<and> get_reg s r = Inr v \<and> too_big v \<longrightarrow>
      parse_command s command = Inr (fault s))
   \<and> (split command = ''STORE'' # r # rest \<and> get_reg s ''A'' = Inr i
        \<and> get_reg s r = Inr v \<and> too_big v \<longrightarrow>
      parse_command s command = Inr (fault s))
   \<and> (split command = ''ADD'' # r1 # r2 # rest \<and> get_reg s r1 = Inr a
        \<and> get_reg s r2 = Inr b \<and> too_big (a + b) \<longrightarrow>
      parse_command s command = Inr (fault (set_reg s r1 (a + b))))
   \<and> (split command = ''SUB'' # r1 # r2 # rest \<and> get_reg s r1 = Inr a
        \<and> get_reg s r2 = Inr b \<and> too_big (a - b) \<longrightarrow>
      parse_command s command = Inr (fault (set_reg s r1 (a - b))))
   \<and> (split command = ''MUL'' # r1 # r2 # rest \<and> get_reg s r1 = Inr a
        \<and> get_reg s r2 = Inr b \<and> too_big (a * b) \<longrightarrow>
      parse_command s command = Inr (fault (set_reg s r1 (a * b))))
   \<and> (split command = ''DIV'' # r1 # r2 # rest \<and> get_reg s r1 = Inr a
        \<and> get_reg s r2 = Inr b \<and> b \<noteq> 0 \<and> too_big (a div b) \<longrightarrow>
      parse_command s command = Inr (fault (set_reg s r1 (a div b))))
   \<and> (split command = ''J'' # t # rest \<and> py_int t = Inr d
        \<and> get_reg s ''P'' = Inr p \<and> get_reg s ''X'' = Inr x \<longrightarrow>
      parse_command s command =
        Inr (set_reg (set_reg (set_reg s ''P'' (p + d)) ''P'' (p + d + 1)) ''X'' (x + 1)))
   \<and> short_term (fault s) = short_term s \<and> memory (fault s) = memory s
   \<and> error (fault s) \<and> stdout (fault s) = stdout s @ [Text fault_text]
   \<and> get_reg (fault (set_reg s r1 w)) r1 = Inr w"
proof -
  have "get_reg (fault (set_reg s r1 w)) r1 = Inr w"
    using get_set_same [of s r1 w] by (simp add: get_reg_def fault_fields)
  then show ?thesis
    using fault_fields [of s]
    by (intro conjI impI)
      (simp_all add: LOADI_too_big ADDI_too_big STOREA_too_big STORE_too_big ADD_too_big
        SUB_too_big MUL_too_big DIV_too_big J_unchecked)
qed

theorem overflow_check_and_write_witness:
  "split ''LOADI A 4398046511105'' = [''LOADI'', ''A'', ''4398046511105'']
   \<and> py_int ''4398046511105'' = Inr (2 ^ 42 + 1) \<and> too_big (2 ^ 42 + 1)
   \<and> parse_command init ''LOADI A 4398046511105'' = Inr (fault init)
   \<and> split ''ADD A B'' = [''ADD'', ''A'', ''B'']
   \<and> get_reg (set_reg (set_reg init ''A'' (2 ^ 42)) ''B'' 1) ''A'' = Inr (2 ^ 42)
   \<and> get_reg (set_reg (set_reg init ''A'' (2 ^ 42)) ''B'' 1) ''B'' = Inr 1
   \<and> parse_command (set_reg (set_reg init ''A'' (2 ^ 42)) ''B'' 1) ''ADD A B'' =
        Inr (fault (set_reg (set_reg (set_reg init ''A'' (2 ^ 42)) ''B'' 1) ''A'' (2 ^ 42 + 1)))"
proof -
  let ?s = "set_reg (set_reg init ''A'' (2 ^ 42)) ''B'' 1"
  have a1: "split ''LOADI A 4398046511105'' = ''LOADI'' # ''A'' # ''4398046511105'' # []"
    by (simp add: text_defs)
  have a2: "py_int ''4398046511105'' = Inr (2 ^ 42 + 1)"
    by (simp add: text_defs bnd_def)
  have a3: "too_big (2 ^ 42 + 1)"
    by (simp add: too_big_def)
  have b1: "split ''ADD A B'' = ''ADD'' # ''A'' # ''B'' # []"
    by (simp add: text_defs)
  have b2: "get_reg ?s ''A'' = Inr (2 ^ 42)"
    by (simp add: get_set_same get_set_other)
  have b3: "get_reg ?s ''B'' = Inr 1"
    by (simp add: get_set_same)
  have b4: "too_big (2 ^ 42 + 1)"
    by (simp add: too_big_def)
  from overflow_check_and_write
    [where command = "''LOADI A 4398046511105''" and r = "''A''" and t = "''4398046511105''"
       and rest = "[]" and v = "2 ^ 42 + 1" and s = init]
    a1 a2 a3
  have A: "parse_command init ''LOADI A 4398046511105'' = Inr (fault init)"
    by blast
  from overflow_check_and_write
    [where command = "''ADD A B''" and ?r1.0 = "''A''" and ?r2.0 = "''B''" and rest = "[]"
       and a = "2 ^ 42" and b = 1 and s = ?s]
    b1 b2 b3 b4
  have B: "parse_command ?s ''ADD A B'' = Inr (fault (set_reg ?s ''A'' (2 ^ 42 + 1)))"
    by simp
  from a1 a2 a3 A b1 b2 b3 B show ?thesis by simp
qed

text \<open>
  C4, as stated, fails on ADD: with \<open>A = 2^42\<close> and \<open>B = 1\<close>, \<open>ADD A B\<close> reports the fault and
  leaves \<open>A = 2^42 + 1\<close>, not the previous value.
\<close>

theorem add_overflow_is_written:
  "script [''LOADI A 4398046511104'', ''LOADI B 1'', ''ADD A B'', ''END''] =
     Some (Inr \<lparr>memory = replicate 2048 0,
                short_term = [(''A'', 2 ^ 42 + 1), (''B'', 1), (''C'', 0), (''D'', 0),
                              (''P'', 2), (''X'', 2)],
                commands = [''LOADI A 4398046511104'', ''LOADI B 1'', ''ADD A B''],
                error = True,
                stdout = [Text fault_text]\<rparr>)
   \<and> parse_command
         \<lparr>memory = replicate 2048 0,
          short_term = [(''A'', 2 ^ 42), (''B'', 1), (''C'', 0), (''D'', 0),
                        (''P'', 2), (''X'', 2)],
          commands = [''LOADI A 4398046511104'', ''LOADI B 1'', ''ADD A B''],
          error = False,
          stdout = []\<rparr> ''ADD A B'' =
       Inr \<lparr>memory = replicate 2048 0,
            short_term = [(''A'', 2 ^ 42 + 1), (''B'', 1), (''C'', 0), (''D'', 0),
                          (''P'', 2), (''X'', 2)],
            commands = [''LOADI A 4398046511104'', ''LOADI B 1'', ''ADD A B''],
            error = True,
            stdout = [Text fault_text]\<rparr>"
proof (rule conjI)
  show "script [''LOADI A 4398046511104'', ''LOADI B 1'', ''ADD A B'', ''END''] =
     Some (Inr \<lparr>memory = replicate 2048 0,
                short_term = [(''A'', 2 ^ 42 + 1), (''B'', 1), (''C'', 0), (''D'', 0),
                              (''P'', 2), (''X'', 2)],
                commands = [''LOADI A 4398046511104'', ''LOADI B 1'', ''ADD A B''],
                error = True,
                stdout = [Text fault_text]\<rparr>)"
    by (rule script_fuel_sound [of "Suc (Suc (Suc (Suc 0)))"]) (simp add: load_defs run_defs)
  show "parse_command
         \<lparr>memory = replicate 2048 0,
          short_term = [(''A'', 2 ^ 42), (''B'', 1), (''C'', 0), (''D'', 0),
                        (''P'', 2), (''X'', 2)],
          commands = [''LOADI A 4398046511104'', ''LOADI B 1'', ''ADD A B''],
          error = False,
          stdout = []\<rparr> ''ADD A B'' =
       Inr \<lparr>memory = replicate 2048 0,
            short_term = [(''A'', 2 ^ 42 + 1), (''B'', 1), (''C'', 0), (''D'', 0),
                          (''P'', 2), (''X'', 2)],
            commands = [''LOADI A 4398046511104'', ''LOADI B 1'', ''ADD A B''],
            error = True,
            stdout = [Text fault_text]\<rparr>"
    by (simp add: run_defs)
qed

section \<open>The register slots\<close>

lemma reg_names_set: "reg_names (set_reg s r v) = insert r (reg_names s)"
  by (simp add: reg_names_def set_reg_def dom_update)

lemma reg_names_fault: "reg_names (fault s) = reg_names s"
  by (simp add: reg_names_def fault_def print_def)

lemma reg_names_print: "reg_names (print s l) = reg_names s"
  by (simp add: reg_names_def print_def)

lemma reg_names_memory: "reg_names (s\<lparr>memory := m\<rparr>) = reg_names s"
  by (simp add: reg_names_def)

lemma reg_names_error: "reg_names (s\<lparr>error := b\<rparr>) = reg_names s"
  by (simp add: reg_names_def)

lemma get_reg_name: "get_reg s r = Inr v \<Longrightarrow> r \<in> reg_names s"
  by (auto simp: get_reg_def reg_names_def split: option.splits dest: map_of_SomeD
      intro: rev_image_eqI)

lemma set_existing: "get_reg s r = Inr a \<Longrightarrow> reg_names (set_reg s r v) = reg_names s"
  by (auto simp: reg_names_set dest: get_reg_name)

lemmas names_simps =
  reg_names_set reg_names_fault reg_names_print reg_names_memory reg_names_error
  state_of_def

lemma checked_names: "checked s r = Inr fl \<Longrightarrow> reg_names (state_of fl) = reg_names s"
  by (auto simp: checked_def bnd_def names_simps split: sum.splits if_splits)

lemma op_LOADA_names:
  "op_LOADA s parts = Inr fl \<Longrightarrow>
   reg_names s \<subseteq> reg_names (state_of fl)
   \<and> reg_names (state_of fl) \<subseteq> reg_names s \<union> {r. py_getitem parts 1 = Inr r}"
  by (auto simp: op_LOADA_def bnd_def names_simps split: sum.splits)

lemma op_LOAD_names:
  "op_LOAD s parts = Inr fl \<Longrightarrow>
   reg_names s \<subseteq> reg_names (state_of fl)
   \<and> reg_names (state_of fl) \<subseteq> reg_names s \<union> {r. py_getitem parts 1 = Inr r}"
  by (auto simp: op_LOAD_def bnd_def names_simps split: sum.splits)

lemma op_LOADI_names:
  "op_LOADI s parts = Inr fl \<Longrightarrow>
   reg_names s \<subseteq> reg_names (state_of fl)
   \<and> reg_names (state_of fl) \<subseteq> reg_names s \<union> {r. py_getitem parts 1 = Inr r}"
  by (auto simp: op_LOADI_def bnd_def names_simps split: sum.splits if_splits)

lemma op_MOVE_names:
  "op_MOVE s parts = Inr fl \<Longrightarrow>
   reg_names s \<subseteq> reg_names (state_of fl)
   \<and> reg_names (state_of fl) \<subseteq> reg_names s \<union> {r. py_getitem parts 1 = Inr r}"
  by (auto simp: op_MOVE_def bnd_def names_simps split: sum.splits)

lemma op_STOREA_names: "op_STOREA s parts = Inr fl \<Longrightarrow> reg_names (state_of fl) = reg_names s"
  by (auto simp: op_STOREA_def bnd_def names_simps split: sum.splits if_splits)

lemma op_STORE_names: "op_STORE s parts = Inr fl \<Longrightarrow> reg_names (state_of fl) = reg_names s"
  by (auto simp: op_STORE_def bnd_def names_simps split: sum.splits if_splits)

lemma op_ADDI_names: "op_ADDI s parts = Inr fl \<Longrightarrow> reg_names (state_of fl) = reg_names s"
  by (auto simp: op_ADDI_def bnd_def names_simps split: sum.splits if_splits
      dest: get_reg_name)

lemma op_arith_names:
  assumes "op_arith f s parts = Inr fl"
  shows "reg_names (state_of fl) = reg_names s"
proof -
  from assms obtain r1 a v where "get_reg s r1 = Inr a" and "checked (set_reg s r1 v) r1 = Inr fl"
    by (auto simp: op_arith_def bnd_def split: sum.splits)
  then show ?thesis
    using checked_names [of "set_reg s r1 v" r1 fl] by (simp add: set_existing)
qed

lemma op_DIV_names:
  assumes "op_DIV s parts = Inr fl"
  shows "reg_names (state_of fl) = reg_names s"
proof -
  from assms obtain b where rest:
    "(if b = 0 then Inr (Fall (fault s))
      else bnd (py_getitem parts 1) (\<lambda>r1. bnd (get_reg s r1) (\<lambda>a.
             checked (set_reg s r1 (a div b)) r1))) = Inr fl"
    by (auto simp: op_DIV_def bnd_def split: sum.splits)
  show ?thesis
  proof (cases "b = 0")
    case True
    with rest have "fl = Fall (fault s)" by simp
    then show ?thesis by (simp add: state_of_def reg_names_fault)
  next
    case False
    with rest obtain r1 a where "get_reg s r1 = Inr a"
      and "checked (set_reg s r1 (a div b)) r1 = Inr fl"
      by (auto simp: bnd_def split: sum.splits)
    then show ?thesis
      using checked_names [of "set_reg s r1 (a div b)" r1 fl] by (simp add: set_existing)
  qed
qed

lemma op_J_names: "op_J s parts = Inr fl \<Longrightarrow> reg_names (state_of fl) = reg_names s"
  by (auto simp: op_J_def bnd_def names_simps split: sum.splits dest: get_reg_name)

lemma op_JR_names: "op_JR s parts = Inr fl \<Longrightarrow> reg_names (state_of fl) = reg_names s"
  by (auto simp: op_JR_def bnd_def names_simps split: sum.splits dest: get_reg_name)

lemma op_JZ_names: "op_JZ s parts = Inr fl \<Longrightarrow> reg_names (state_of fl) = reg_names s"
  by (auto simp: op_JZ_def bnd_def names_simps split: sum.splits if_splits
      dest: get_reg_name)

lemma op_JLT_names: "op_JLT s parts = Inr fl \<Longrightarrow> reg_names (state_of fl) = reg_names s"
  by (auto simp: op_JLT_def bnd_def names_simps split: sum.splits if_splits
      dest: get_reg_name)

lemma op_HALT_names: "op_HALT s = Inr fl \<Longrightarrow> reg_names (state_of fl) = reg_names s"
  by (auto simp: op_HALT_def names_simps)

lemma op_PRINT_names: "op_PRINT s parts = Inr fl \<Longrightarrow> reg_names (state_of fl) = reg_names s"
  by (auto simp: op_PRINT_def bnd_def names_simps split: sum.splits)

lemma increments_names:
  assumes "increments s = Inr s'"
  shows "reg_names s' = reg_names s"
proof -
  from assms obtain p x where p: "get_reg s ''P'' = Inr p"
    and x: "get_reg (set_reg s ''P'' (p + 1)) ''X'' = Inr x"
    and s': "s' = set_reg (set_reg s ''P'' (p + 1)) ''X'' (x + 1)"
    by (auto simp: increments_def bnd_def split: sum.splits)
  from x have "reg_names (set_reg (set_reg s ''P'' (p + 1)) ''X'' (x + 1)) =
      reg_names (set_reg s ''P'' (p + 1))"
    by (rule set_existing)
  also from p have "\<dots> = reg_names s"
    by (rule set_existing)
  finally show ?thesis
    by (simp add: s')
qed

lemma finish_names: "finish fl = Inr s' \<Longrightarrow> reg_names s' = reg_names (state_of fl)"
  by (cases fl) (auto simp: finish_def state_of_def dest: increments_names)

lemma same_names:
  "reg_names (state_of fl) = reg_names s \<Longrightarrow>
   reg_names s \<subseteq> reg_names (state_of fl)
   \<and> reg_names (state_of fl) \<subseteq> reg_names s \<union> {r. py_getitem parts 1 = Inr r}"
  by auto

lemmas op_names =
  op_LOADA_names op_LOAD_names op_LOADI_names op_MOVE_names
  op_STOREA_names [THEN same_names] op_STORE_names [THEN same_names]
  op_ADDI_names [THEN same_names] op_arith_names [THEN same_names]
  op_DIV_names [THEN same_names] op_J_names [THEN same_names] op_JR_names [THEN same_names]
  op_JZ_names [THEN same_names] op_JLT_names [THEN same_names]
  op_HALT_names [THEN same_names] op_PRINT_names [THEN same_names]

lemma dispatch_branches:
  "dispatch s parts = Inl IndexError
   \<or> dispatch s parts \<in> {op_LOADA s parts, op_LOAD s parts, op_LOADI s parts, op_STOREA s parts,
        op_STORE s parts, op_MOVE s parts, op_ADDI s parts, op_arith (\<lambda>a b. a + b) s parts,
        op_arith (\<lambda>a b. a - b) s parts, op_arith (\<lambda>a b. a * b) s parts, op_DIV s parts,
        op_J s parts, op_JR s parts, op_JZ s parts, op_JLT s parts, op_HALT s,
        op_PRINT s parts, Inr (Fall s)}"
  by (simp add: dispatch_def bnd_def py_getitem_def py_index_def split: sum.splits)

lemma dispatch_names:
  assumes "dispatch s parts = Inr fl"
  shows "reg_names s \<subseteq> reg_names (state_of fl)
       \<and> reg_names (state_of fl) \<subseteq> reg_names s \<union> {r. py_getitem parts 1 = Inr r}"
proof -
  from dispatch_branches [of s parts] assms
  consider "op_LOADA s parts = Inr fl" | "op_LOAD s parts = Inr fl" | "op_LOADI s parts = Inr fl"
    | "op_STOREA s parts = Inr fl" | "op_STORE s parts = Inr fl" | "op_MOVE s parts = Inr fl"
    | "op_ADDI s parts = Inr fl" | "op_arith (\<lambda>a b. a + b) s parts = Inr fl"
    | "op_arith (\<lambda>a b. a - b) s parts = Inr fl" | "op_arith (\<lambda>a b. a * b) s parts = Inr fl"
    | "op_DIV s parts = Inr fl" | "op_J s parts = Inr fl" | "op_JR s parts = Inr fl"
    | "op_JZ s parts = Inr fl" | "op_JLT s parts = Inr fl" | "op_HALT s = Inr fl"
    | "op_PRINT s parts = Inr fl" | "Inr (Fall s) = (Inr fl :: py_error + flow)"
    by (elim disjE insertE emptyE) simp_all
  then show ?thesis
  proof cases
    case 18
    then show ?thesis by (auto simp: state_of_def)
  qed (rule op_names, assumption)+
qed

lemma parse_command_names:
  assumes "parse_command s command = Inr s'"
  shows "reg_names s \<subseteq> reg_names s'
       \<and> reg_names s' \<subseteq> reg_names s \<union> {r. py_getitem (split command) 1 = Inr r}"
proof -
  from assms obtain fl where d: "dispatch s (split command) = Inr fl" and f: "finish fl = Inr s'"
    by (auto simp: parse_command_def bnd_def split: sum.splits)
  from dispatch_names [OF d] finish_names [OF f] show ?thesis by simp
qed

lemma loop_turn_names: "loop_turn s = Again s' \<Longrightarrow> reg_names s \<subseteq> reg_names s'"
  by (auto simp: loop_turn_def guarded_def split: sum.splits if_splits
      dest!: parse_command_names)

text \<open>
  C7, as the code has it. The machine starts with exactly the six slots A, B, C, D, P and X,
  all 0, and no instruction removes a slot. The operands are never checked against the six
  names: an instruction can add a slot, and the only name it can add is its first operand
  (\<open>parts[1]\<close>). When that operand names an existing slot, or there is none, the set of
  names after the step is the set before it.
\<close>

theorem register_slots:
  "short_term init = [(''A'', 0), (''B'', 0), (''C'', 0), (''D'', 0), (''P'', 0), (''X'', 0)]
   \<and> reg_names init = {''A'', ''B'', ''C'', ''D'', ''P'', ''X''}
   \<and> (parse_command s command = Inr s' \<longrightarrow>
        reg_names s \<subseteq> reg_names s'
        \<and> reg_names s' \<subseteq> reg_names s \<union> {r. py_getitem (split command) 1 = Inr r})
   \<and> (parse_command s command = Inr s' \<and> py_getitem (split command) 1 = Inr r
        \<and> r \<in> reg_names s \<longrightarrow> reg_names s' = reg_names s)
   \<and> (loop_turn s = Again s' \<longrightarrow> reg_names s \<subseteq> reg_names s')"
proof (intro conjI impI)
  show "short_term init = [(''A'', 0), (''B'', 0), (''C'', 0), (''D'', 0), (''P'', 0), (''X'', 0)]"
    by (simp add: init_def)
  show "reg_names init = {''A'', ''B'', ''C'', ''D'', ''P'', ''X''}"
    by (simp add: init_def reg_names_def)
next
  assume "parse_command s command = Inr s'"
  from parse_command_names [OF this]
  show "reg_names s \<subseteq> reg_names s'"
    and "reg_names s' \<subseteq> reg_names s \<union> {r. py_getitem (split command) 1 = Inr r}"
    by simp_all
next
  assume "parse_command s command = Inr s' \<and> py_getitem (split command) 1 = Inr r
        \<and> r \<in> reg_names s"
  then have run: "parse_command s command = Inr s'"
    and r: "py_getitem (split command) 1 = Inr r" and known: "r \<in> reg_names s"
    by simp_all
  from parse_command_names [OF run] r known show "reg_names s' = reg_names s"
    by auto
next
  assume "loop_turn s = Again s'"
  then show "reg_names s \<subseteq> reg_names s'"
    by (rule loop_turn_names)
qed

theorem register_slots_witness:
  "parse_command init ''LOADI A 5'' =
     Inr \<lparr>memory = replicate 2048 0,
          short_term = [(''A'', 5), (''B'', 0), (''C'', 0), (''D'', 0), (''P'', 1), (''X'', 1)],
          commands = [],
          error = False,
          stdout = []\<rparr>
   \<and> py_getitem (split ''LOADI A 5'') 1 = Inr ''A''
   \<and> ''A'' \<in> reg_names init
   \<and> reg_names \<lparr>memory = replicate 2048 0,
          short_term = [(''A'', 5), (''B'', 0), (''C'', 0), (''D'', 0), (''P'', 1), (''X'', 1)],
          commands = [],
          error = False,
          stdout = []\<rparr> = reg_names init"
proof -
  let ?S = "\<lparr>memory = replicate 2048 (0 :: int),
          short_term = [(''A'', 5), (''B'', 0), (''C'', 0), (''D'', 0), (''P'', 1), (''X'', 1)],
          commands = [],
          error = False,
          stdout = []\<rparr>"
  have h1: "parse_command init ''LOADI A 5'' = Inr ?S"
    by (simp add: init_def run_defs)
  have h2: "py_getitem (split ''LOADI A 5'') 1 = Inr ''A''"
    by (simp add: text_defs py_getitem_def py_index_def bnd_def)
  have h3: "''A'' \<in> reg_names init"
    by (simp add: init_def reg_names_def)
  from register_slots [where s = init and command = "''LOADI A 5''" and s' = ?S and r = "''A''"]
    h1 h2 h3
  have "reg_names ?S = reg_names init"
    by blast
  with h1 h2 h3 show ?thesis by simp
qed

text \<open>
  C7, as stated, fails: \<open>LOADI Z 5\<close> runs without fault and leaves a seventh slot Z.
\<close>

theorem loadi_adds_a_slot:
  "script [''LOADI Z 5'', ''END''] =
     Some (Inr \<lparr>memory = replicate 2048 0,
                short_term = [(''A'', 0), (''B'', 0), (''C'', 0), (''D'', 0), (''P'', 1),
                              (''X'', 1), (''Z'', 5)],
                commands = [''LOADI Z 5''],
                error = False,
                stdout = []\<rparr>)
   \<and> reg_names \<lparr>memory = replicate 2048 0,
                short_term = [(''A'', 0), (''B'', 0), (''C'', 0), (''D'', 0), (''P'', 1),
                              (''X'', 1), (''Z'', 5)],
                commands = [''LOADI Z 5''],
                error = False,
                stdout = []\<rparr> = {''A'', ''B'', ''C'', ''D'', ''P'', ''X'', ''Z''}
   \<and> ''Z'' \<notin> {''A'', ''B'', ''C'', ''D'', ''P'', ''X''}"
proof (intro conjI)
  show "script [''LOADI Z 5'', ''END''] =
     Some (Inr \<lparr>memory = replicate 2048 0,
                short_term = [(''A'', 0), (''B'', 0), (''C'', 0), (''D'', 0), (''P'', 1),
                              (''X'', 1), (''Z'', 5)],
                commands = [''LOADI Z 5''],
                error = False,
                stdout = []\<rparr>)"
    by (rule script_fuel_sound [of "Suc (Suc 0)"]) (simp add: load_defs run_defs)
  show "reg_names \<lparr>memory = replicate 2048 0,
                short_term = [(''A'', 0), (''B'', 0), (''C'', 0), (''D'', 0), (''P'', 1),
                              (''X'', 1), (''Z'', 5)],
                commands = [''LOADI Z 5''],
                error = False,
                stdout = []\<rparr> = {''A'', ''B'', ''C'', ''D'', ''P'', ''X'', ''Z''}"
    by (simp add: reg_names_def)
  show "''Z'' \<notin> {''A'', ''B'', ''C'', ''D'', ''P'', ''X''}"
    by simp
qed

end
